theory Spec2Isabelle
  imports Main "HOL-Library.Sublist"
begin

section \<open>Strings, subscripts and dictionaries of the source language\<close>

text \<open>
  A Python \<open>str\<close> is a sequence of Unicode code points, and \<open>len\<close>, slicing and
  \<open>strip\<close> count code points. A string is therefore a list of code points; \<open>lit\<close>
  embeds the ASCII text of a source literal.
\<close>

type_synonym codepoint = nat
type_synonym str = "codepoint list"

definition lit :: "string \<Rightarrow> str" where
  "lit s = map of_char s"

text \<open>
  \<open>str.isspace\<close> for one code point: the code points that CPython classifies as
  whitespace (bidirectional type WS, B or S, or category Zs).
\<close>

definition isspace :: "codepoint \<Rightarrow> bool" where
  "isspace c \<longleftrightarrow>
     (0x09 \<le> c \<and> c \<le> 0x0D) \<or> (0x1C \<le> c \<and> c \<le> 0x20) \<or> c = 0x85 \<or> c = 0xA0 \<or>
     c = 0x1680 \<or> (0x2000 \<le> c \<and> c \<le> 0x200A) \<or> c = 0x2028 \<or> c = 0x2029 \<or>
     c = 0x202F \<or> c = 0x205F \<or> c = 0x3000"

definition lstrip :: "str \<Rightarrow> str" where
  "lstrip s = dropWhile isspace s"

definition rstrip :: "str \<Rightarrow> str" where
  "rstrip s = rev (dropWhile isspace (rev s))"

text \<open>\<open>s.strip()\<close>: leading and trailing whitespace removed.\<close>

definition strip :: "str \<Rightarrow> str" where
  "strip s = rstrip (lstrip s)"

text \<open>
  The subscript \<open>xs[i]\<close> with a non-negative index raises \<open>IndexError\<close> out of range.
\<close>

datatype py_error = IndexError

definition getitem :: "'a list \<Rightarrow> nat \<Rightarrow> py_error + 'a" where
  "getitem xs i = (if i < length xs then Inr (xs ! i) else Inl IndexError)"

text \<open>
  A \<open>dict\<close> keeps its keys in insertion order; storing under a key that is present
  replaces the value in place. A dictionary display \<open>{k0: v0, k1: v1, ...}\<close> evaluates
  its entries from left to right, stores each, and stops at the first key expression
  that raises.
\<close>

fun dict_setitem :: "'k \<Rightarrow> 'v \<Rightarrow> ('k \<times> 'v) list \<Rightarrow> ('k \<times> 'v) list" where
  "dict_setitem k v [] = [(k, v)]"
| "dict_setitem k v (p # ps) = (if fst p = k then (k, v) # ps else p # dict_setitem k v ps)"

fun dict_display :: "((py_error + 'k) \<times> 'v) list \<Rightarrow> ('k \<times> 'v) list \<Rightarrow> py_error + ('k \<times> 'v) list" where
  "dict_display [] d = Inr d"
| "dict_display ((Inl e, v) # es) d = Inl e"
| "dict_display ((Inr k, v) # es) d = dict_display es (dict_setitem k v d)"

definition dict_keys :: "('k \<times> 'v) list \<Rightarrow> 'k list" where
  "dict_keys d = map fst d"

definition dict_get :: "('k \<times> 'v) list \<Rightarrow> 'k \<Rightarrow> 'v option" where
  "dict_get d k = map_of d k"

section \<open>The generator\<close>

record QuizItem =
  q :: str
  options :: "str list"
  answer :: int

record GenerateResponse =
  base :: str
  subtopics :: "str list"
  explanations :: "(str \<times> str) list"
  examples :: "(str \<times> str list) list"
  quizzes :: "(str \<times> QuizItem list) list"

text \<open>\<open>topic.strip() or "Introduction to Learning"\<close> (main.py, line 37).\<close>

definition base_of :: "str \<Rightarrow> str" where
  "base_of topic = (if strip topic \<noteq> [] then strip topic else lit ''Introduction to Learning'')"

text \<open>The list of labels (main.py, lines 40 to 45).\<close>

definition subtopics_of :: "str \<Rightarrow> str list" where
  "subtopics_of b =
     [lit ''Foundations of '' @ b,
      lit ''Core Concepts in '' @ b,
      lit ''Applying '' @ b,
      lit ''Quick Review & Pitfalls'']"

text \<open>The explanation of each label (main.py, lines 47 to 52).\<close>

definition explanations_of :: "str \<Rightarrow> str list \<Rightarrow> py_error + (str \<times> str) list" where
  "explanations_of b subs = dict_display
     [(getitem subs 0,
       lit ''Start with the fundamentals of '' @ b @ lit ''. Clarify definitions, the problem '' @ b
         @ lit '' tries to solve, and key terminology.''),
      (getitem subs 1,
       lit ''Dive into the main building blocks of '' @ b
         @ lit ''. Understand how ideas connect and compare trade-offs.''),
      (getitem subs 2,
       lit ''Practice using '' @ b
         @ lit '' in realistic scenarios. Work through step-by-step reasoning and examples.''),
      (getitem subs 3,
       lit ''Summarize what you've learned about '' @ b
         @ lit '', highlight common mistakes, and create a concise review list.'')] []"

text \<open>The three example prompts of each label (main.py, lines 54 to 75).\<close>

definition examples_of :: "str \<Rightarrow> str list \<Rightarrow> py_error + (str \<times> str list) list" where
  "examples_of b subs = dict_display
     [(getitem subs 0,
       [lit ''Define '' @ b @ lit '' in one sentence.'',
        lit ''List 3 real-world applications where '' @ b @ lit '' is useful.'',
        lit ''Explain why '' @ b @ lit '' matters for learners at your level.'']),
      (getitem subs 1,
       [lit ''Describe a core concept of '' @ b @ lit '' and give a short example.'',
        lit ''Contrast two approaches used in '' @ b @ lit '' and when to pick each.'',
        lit ''What assumptions are common when studying '' @ b @ lit ''?'']),
      (getitem subs 2,
       [lit ''Walk through a worked example applying '' @ b @ lit '' step by step.'',
        lit ''Identify edge cases that can break naive use of '' @ b @ lit ''.'',
        lit ''Create a small challenge exercise involving '' @ b @ lit ''.'']),
      (getitem subs 3,
       [lit ''Write a 5-bullet summary of '' @ b @ lit ''.'',
        lit ''Name two common pitfalls and how to avoid them in '' @ b @ lit ''.'',
        lit ''Draft 3 flashcards to remember key ideas in '' @ b @ lit ''.''])] []"

text \<open>The two quiz items of each label (main.py, lines 78 to 167).\<close>

definition quizzes_of :: "str \<Rightarrow> str list \<Rightarrow> py_error + (str \<times> QuizItem list) list" where
  "quizzes_of b subs = dict_display
     [(getitem subs 0,
       [\<lparr>q = lit ''Which best describes the aim of '' @ b @ lit ''?'',
         options = [lit ''It replaces all prior knowledge'',
                    lit ''It provides a framework of key ideas'',
                    lit ''It is only a set of formulas'',
                    lit ''It has no practical use''],
         answer = 1\<rparr>,
        \<lparr>q = lit ''A good first step when learning '' @ b @ lit '' is to:'',
         options = [lit ''Memorize random facts'',
                    lit ''Skim advanced papers'',
                    lit ''Clarify definitions and goals'',
                    lit ''Skip to hard problems''],
         answer = 2\<rparr>]),
      (getitem subs 1,
       [\<lparr>q = lit ''Core concepts in '' @ b @ lit '' should be:'',
         options = [lit ''Learned in isolation only'',
                    lit ''Connected to each other'',
                    lit ''Ignored if difficult'',
                    lit ''Left for later''],
         answer = 1\<rparr>,
        \<lparr>q = lit ''Trade-offs in '' @ b @ lit '' help you:'',
         options = [lit ''Pick approaches that fit the context'',
                    lit ''Avoid making choices'',
                    lit ''Always choose the most complex method'',
                    lit ''Ignore constraints''],
         answer = 0\<rparr>]),
      (getitem subs 2,
       [\<lparr>q = lit ''When applying '' @ b @ lit '', start by:'',
         options = [lit ''Writing code immediately'',
                    lit ''Understanding the problem and constraints'',
                    lit ''Skipping examples'',
                    lit ''Only reading theory''],
         answer = 1\<rparr>,
        \<lparr>q = lit ''Edge cases are important because they:'',
         options = [lit ''Never occur'',
                    lit ''Make solutions more entertaining'',
                    lit ''Reveal hidden assumptions'',
                    lit ''Reduce clarity''],
         answer = 2\<rparr>]),
      (getitem subs 3,
       [\<lparr>q = lit ''A concise review of '' @ b @ lit '' should:'',
         options = [lit ''List key points and pitfalls'',
                    lit ''Introduce unrelated topics'',
                    lit ''Avoid structure'',
                    lit ''Be overly long''],
         answer = 0\<rparr>,
        \<lparr>q = lit ''Flashcards for '' @ b @ lit '' work best when they:'',
         options = [lit ''Ask clear, focused questions'',
                    lit ''Contain essays'',
                    lit ''Use only images'',
                    lit ''Avoid spaced repetition''],
         answer = 0\<rparr>])] []"

text \<open>
  \<open>generate_content\<close> (main.py, lines 36 to 175): the base, the labels, then the three
  dictionaries in the order of the source; an exception raised while one of them is
  built leaves the function.
\<close>

definition generate_content :: "str \<Rightarrow> py_error + GenerateResponse" where
  "generate_content topic =
     (let b = base_of topic;
          subs = subtopics_of b
      in case explanations_of b subs of
           Inl e \<Rightarrow> Inl e
         | Inr expl \<Rightarrow>
             (case examples_of b subs of
                Inl e \<Rightarrow> Inl e
              | Inr exs \<Rightarrow>
                  (case quizzes_of b subs of
                     Inl e \<Rightarrow> Inl e
                   | Inr qzs \<Rightarrow>
                       Inr \<lparr>base = b, subtopics = subs, explanations = expl,
                            examples = exs, quizzes = qzs\<rparr>)))"

section \<open>The request handlers\<close>

text \<open>
  What the framework makes of a handler. A returned value is serialised to JSON and
  encoded as UTF-8 after the handler has returned; the encoding fails on a lone
  surrogate (a code point from U+D800 to U+DFFF), which a \<open>str\<close> may hold. A value
  whose strings can all be encoded is the body of a response with status 200.
  \<open>HTTPException(status_code, detail)\<close> is a response with that status and the detail
  as its body, encoded the same way. A failed encoding, and any other exception that
  leaves the handler, is a response with status 500.
\<close>

definition utf8_encodable :: "str \<Rightarrow> bool" where
  "utf8_encodable s = list_all (\<lambda>c. c < 0xD800 \<or> 0xDFFF < c) s"

datatype 'e handler_exception = HTTPException nat str | Unhandled 'e

datatype 'a http_body = Json 'a | Detail str | InternalServerError

definition http_response ::
  "('a \<Rightarrow> str list) \<Rightarrow> 'e handler_exception + 'a \<Rightarrow> nat \<times> 'a http_body" where
  "http_response strings r =
     (case r of
        Inr v \<Rightarrow>
          if list_all utf8_encodable (strings v) then (200, Json v)
          else (500, InternalServerError)
      | Inl (HTTPException code detail) \<Rightarrow>
          if utf8_encodable detail then (code, Detail detail)
          else (500, InternalServerError)
      | Inl (Unhandled e) \<Rightarrow> (500, InternalServerError))"

text \<open>The strings that the body of a generation result holds.\<close>

definition GenerateResponse_strings :: "GenerateResponse \<Rightarrow> str list" where
  "GenerateResponse_strings r =
     base r # subtopics r
     @ concat (map (\<lambda>e. [fst e, snd e]) (explanations r))
     @ concat (map (\<lambda>e. fst e # snd e) (examples r))
     @ concat (map (\<lambda>e. fst e # concat (map (\<lambda>i. q i # options i) (snd e))) (quizzes r))"

record GenerateRequest =
  topic :: str

text \<open>
  \<open>generate_endpoint\<close> (main.py, lines 188 to 194). The first component of the result
  lists the arguments of the calls of \<open>generate_content\<close> that the handler made, in
  order; the second is what the handler returned or raised.
\<close>

definition generate_endpoint ::
  "GenerateRequest \<Rightarrow> str list \<times> (py_error handler_exception + GenerateResponse)" where
  "generate_endpoint payload =
     (let t = strip (if topic payload \<noteq> [] then topic payload else lit [])
      in if t = [] then ([], Inl (HTTPException 400 (lit ''Topic is required'')))
         else ([t],
               case generate_content t of
                 Inl e \<Rightarrow> Inl (Unhandled e)
               | Inr data \<Rightarrow> Inr data))"

subsection \<open>The database probe\<close>

text \<open>
  The database module is an external collaborator. An operation on it either returns a
  value or raises. Of the exception the handler observes its message \<open>str(e)\<close> and
  which \<open>except\<close> clause takes it: an \<open>ImportError\<close>, another exception deriving from
  \<open>Exception\<close>, or one deriving from \<open>BaseException\<close> only (\<open>SystemExit\<close>,
  \<open>KeyboardInterrupt\<close>), which no clause of the handler takes.
\<close>

datatype db_exception = ImportError str | OtherException str | BaseOnly str

fun message :: "db_exception \<Rightarrow> str" where
  "message (ImportError m) = m"
| "message (OtherException m) = m"
| "message (BaseOnly m) = m"

text \<open>\<open>isinstance(e, Exception)\<close>: what \<open>except Exception\<close> takes.\<close>

fun is_Exception :: "db_exception \<Rightarrow> bool" where
  "is_Exception (ImportError m) = True"
| "is_Exception (OtherException m) = True"
| "is_Exception (BaseOnly m) = False"

datatype 'a outcome = Raises db_exception | Returns 'a

text \<open>
  The handle \<open>db\<close>: reading the attribute \<open>name\<close> (\<open>Returns None\<close> when the handle
  has no such attribute) and calling \<open>list_collection_names()\<close>.
\<close>

record db_handle =
  db_name :: "str option outcome"
  list_collection_names :: "str list outcome"

text \<open>
  What the handler reads from outside: the outcome of \<open>from database import db\<close>
  (\<open>Returns None\<close> when the module binds \<open>db\<close> to \<open>None\<close>) and the two
  environment variables.
\<close>

record environment =
  import_db :: "db_handle option outcome"
  DATABASE_URL :: "str option"
  DATABASE_NAME :: "str option"

record test_response =
  backend :: str
  database :: str
  database_url :: "str option"
  database_name :: "str option"
  connection_status :: str
  collections :: "str list"

definition check_mark :: str where
  "check_mark = [0x2705]"

definition cross_mark :: str where
  "cross_mark = [0x274C]"

definition warning_sign :: str where
  "warning_sign = [0x26A0, 0xFE0F]"

text \<open>
  The body of the outer \<open>try\<close> once \<open>db\<close> is bound (main.py, lines 213 to 227): the
  response as the body left it, and the exception that left the body, if any. The
  inner \<open>except Exception\<close> takes what \<open>list_collection_names()\<close> raises, unless it
  derives from \<open>BaseException\<close> only.
\<close>

definition probe :: "db_handle option \<Rightarrow> test_response \<Rightarrow> test_response \<times> db_exception option" where
  "probe d response =
     (case d of
        None \<Rightarrow>
          (response\<lparr>database := warning_sign @ lit ''  Available but not initialized''\<rparr>, None)
      | Some db \<Rightarrow>
          (let response = response\<lparr>database := check_mark @ lit '' Available''\<rparr>;
               response = response\<lparr>database_url := Some (check_mark @ lit '' Configured'')\<rparr>
           in case db_name db of
                Raises e \<Rightarrow> (response, Some e)
              | Returns n \<Rightarrow>
                  (let response = response\<lparr>database_name :=
                         Some (case n of Some v \<Rightarrow> v | None \<Rightarrow> check_mark @ lit '' Connected'')\<rparr>;
                       response = response\<lparr>connection_status := lit ''Connected''\<rparr>
                   in case list_collection_names db of
                        Returns cs \<Rightarrow>
                          (let response = response\<lparr>collections := take 10 cs\<rparr>
                           in (response\<lparr>database := check_mark @ lit '' Connected & Working''\<rparr>,
                               None))
                      | Raises e \<Rightarrow>
                          if is_Exception e
                          then (response\<lparr>database :=
                                  warning_sign @ lit ''  Connected but Error: ''
                                    @ take 50 (message e)\<rparr>,
                                None)
                          else (response, Some e))))"

text \<open>\<open>"Set" if os.getenv(name) else "Not Set"\<close>, with the marks of the source.\<close>

definition set_flag :: "str option \<Rightarrow> str" where
  "set_flag v =
     (if v \<noteq> None \<and> v \<noteq> Some [] then check_mark @ lit '' Set'' else cross_mark @ lit '' Not Set'')"

text \<open>
  \<open>test_database\<close> (main.py, lines 197 to 239). The two \<open>except\<close> clauses of the
  outer \<open>try\<close> take an \<open>ImportError\<close> and any other exception deriving from
  \<open>Exception\<close>; an exception they do not take leaves the handler.
\<close>

definition test_database :: "environment \<Rightarrow> db_exception handler_exception + test_response" where
  "test_database env =
     (let response = \<lparr>backend = check_mark @ lit '' Running'',
                       database = cross_mark @ lit '' Not Available'',
                       database_url = None,
                       database_name = None,
                       connection_status = lit ''Not Connected'',
                       collections = []\<rparr>;
          (response, raised) =
             (case import_db env of
                Raises e \<Rightarrow> (response, Some e)
              | Returns d \<Rightarrow> probe d response);
          handled =
             (case raised of
                None \<Rightarrow> Inr response
              | Some (ImportError m) \<Rightarrow>
                  Inr (response\<lparr>database :=
                    cross_mark @ lit '' Database module not found (run enable-database first)''\<rparr>)
              | Some (OtherException m) \<Rightarrow>
                  Inr (response\<lparr>database := cross_mark @ lit '' Error: '' @ take 50 m\<rparr>)
              | Some (BaseOnly m) \<Rightarrow> Inl (Unhandled (BaseOnly m)))
      in case handled of
           Inl x \<Rightarrow> Inl x
         | Inr response \<Rightarrow>
             (let response = response\<lparr>database_url := Some (set_flag (DATABASE_URL env))\<rparr>;
                  response = response\<lparr>database_name := Some (set_flag (DATABASE_NAME env))\<rparr>
              in Inr response))"

text \<open>The strings that the body of the probe's response holds.\<close>

definition test_response_strings :: "test_response \<Rightarrow> str list" where
  "test_response_strings r =
     [backend r, database r]
     @ (case database_url r of None \<Rightarrow> [] | Some s \<Rightarrow> [s])
     @ (case database_name r of None \<Rightarrow> [] | Some s \<Rightarrow> [s])
     @ [connection_status r]
     @ collections r"

section \<open>Whitespace stripping\<close>

lemma rstrip_prefix: "\<exists>w. s = rstrip s @ w"
proof -
  have "rev s = takeWhile isspace (rev s) @ dropWhile isspace (rev s)" by simp
  then have "rev (rev s) = rev (takeWhile isspace (rev s) @ dropWhile isspace (rev s))" by simp
  then show ?thesis unfolding rstrip_def by (simp only: rev_append rev_rev_ident) blast
qed

lemma lstrip_fixed: "s = [] \<or> \<not> isspace (hd s) \<Longrightarrow> lstrip s = s"
  by (simp add: lstrip_def dropWhile_eq_self_iff)

lemma rstrip_fixed: "s = [] \<or> \<not> isspace (last s) \<Longrightarrow> rstrip s = s"
proof -
  assume "s = [] \<or> \<not> isspace (last s)"
  then have "dropWhile isspace (rev s) = rev s"
    by (auto simp: dropWhile_eq_self_iff hd_rev)
  then show ?thesis by (simp add: rstrip_def)
qed

lemma lstrip_hd: "lstrip s \<noteq> [] \<Longrightarrow> \<not> isspace (hd (lstrip s))"
  unfolding lstrip_def by (rule hd_dropWhile)

lemma rstrip_last: "rstrip s \<noteq> [] \<Longrightarrow> \<not> isspace (last (rstrip s))"
  unfolding rstrip_def using hd_dropWhile[of isspace "rev s"] by (simp add: last_rev)

lemma strip_hd: assumes "strip s \<noteq> []" shows "\<not> isspace (hd (strip s))"
proof -
  obtain w where w: "lstrip s = rstrip (lstrip s) @ w" using rstrip_prefix by blast
  from assms have ne: "rstrip (lstrip s) \<noteq> []" by (simp add: strip_def)
  with w have "lstrip s \<noteq> []" by auto
  then have "\<not> isspace (hd (lstrip s))" by (rule lstrip_hd)
  moreover from w ne have "hd (lstrip s) = hd (rstrip (lstrip s))" by (metis hd_append2)
  ultimately show ?thesis by (simp add: strip_def)
qed

lemma strip_last: "strip s \<noteq> [] \<Longrightarrow> \<not> isspace (last (strip s))"
  unfolding strip_def by (rule rstrip_last)

lemma strip_idem: "strip (strip s) = strip s"
proof (cases "strip s = []")
  case True
  have "strip [] = []" by (simp add: strip_def lstrip_def rstrip_def)
  with True show ?thesis by simp
next
  case False
  then have "lstrip (strip s) = strip s" by (simp add: lstrip_fixed strip_hd)
  moreover from False have "rstrip (strip s) = strip s" by (simp add: rstrip_fixed strip_last)
  ultimately show ?thesis by (simp add: strip_def[of "strip s"])
qed

lemma strip_empty_iff: "strip s = [] \<longleftrightarrow> list_all isspace s"
proof
  assume e: "strip s = []"
  have "lstrip s = []"
  proof (rule ccontr)
    assume ne: "lstrip s \<noteq> []"
    from e have "\<forall>c\<in>set (lstrip s). isspace c"
      by (simp add: strip_def rstrip_def)
    with ne have "isspace (hd (lstrip s))" by simp
    with lstrip_hd[OF ne] show False by simp
  qed
  then show "list_all isspace s"
    by (simp add: lstrip_def list_all_iff)
next
  assume "list_all isspace s"
  then have "lstrip s = []"
    by (simp add: lstrip_def list_all_iff)
  then show "strip s = []" by (simp add: strip_def rstrip_def)
qed

section \<open>Evaluating the dictionary displays of the generator\<close>

lemma subtopics_distinct: "distinct (subtopics_of b)"
  by (simp add: subtopics_of_def lit_def)

lemma dict_display_getitem4:
  assumes "distinct [k0, k1, k2, k3]"
  shows "dict_display
           [(getitem [k0, k1, k2, k3] 0, v0), (getitem [k0, k1, k2, k3] 1, v1),
            (getitem [k0, k1, k2, k3] 2, v2), (getitem [k0, k1, k2, k3] 3, v3)] []
         = Inr [(k0, v0), (k1, v1), (k2, v2), (k3, v3)]"
  using assms by (simp add: getitem_def)

lemma length_subtopics_of: "length (subtopics_of b) = 4"
  by (simp add: subtopics_of_def)

lemma dict_display_subtopics:
  "dict_display
     [(getitem (subtopics_of b) 0, v0), (getitem (subtopics_of b) (Suc 0), v1),
      (getitem (subtopics_of b) 2, v2), (getitem (subtopics_of b) 3, v3)] []
   = Inr (zip (subtopics_of b) [v0, v1, v2, v3])"
  using subtopics_distinct[of b] unfolding subtopics_of_def
  by (simp add: getitem_def)

lemmas generator_defs =
  generate_content_def Let_def explanations_of_def examples_of_def quizzes_of_def
  dict_display_subtopics

text \<open>No subscript of the generator is out of range: it returns for every topic.\<close>

lemma generate_content_returns: "\<exists>r. generate_content t = Inr r"
  by (simp add: generator_defs)

section \<open>The generator's result\<close>

text \<open>
  Claim C1. For every input \<open>t\<close>, \<open>generate_content t\<close> returns a result whose
  \<open>base\<close> is \<open>strip t\<close> when \<open>strip t\<close> is not empty, and the literal
  \<open>"Introduction to Learning"\<close> when \<open>t\<close> is empty or consists of whitespace only.
\<close>

theorem generate_content_base:
  "\<exists>r. generate_content t = Inr r \<and>
       (strip t \<noteq> [] \<longrightarrow> base r = strip t) \<and>
       (t = [] \<or> list_all isspace t \<longrightarrow> base r = lit ''Introduction to Learning'')"
  using strip_empty_iff[of t] by (auto simp add: generator_defs base_of_def)

text \<open>
  The theorem at \<open>"  Graphs "\<close>, whose stripped text is not empty, and at a string of
  three spaces.
\<close>

theorem generate_content_base_witness:
  "strip (lit ''  Graphs '') \<noteq> [] \<and>
   generate_content (lit ''  Graphs '') = Inr (projr (generate_content (lit ''  Graphs ''))) \<and>
   base (projr (generate_content (lit ''  Graphs ''))) = lit ''Graphs'' \<and>
   list_all isspace (lit ''   '') \<and>
   base (projr (generate_content (lit ''   ''))) = lit ''Introduction to Learning''"
proof -
  have a: "strip (lit ''  Graphs '') = lit ''Graphs''"
    by (simp add: strip_def lstrip_def rstrip_def lit_def isspace_def)
  have b: "list_all isspace (lit ''   '')"
    by (simp add: lit_def isspace_def)
  have c: "lit ''Graphs'' \<noteq> []" by (simp add: lit_def)
  from generate_content_base[of "lit ''  Graphs ''"] generate_content_base[of "lit ''   ''"] a b c
  show ?thesis by auto
qed

text \<open>
  Claim C3, as the code has it. For every input the result has four labels; the first
  three contain the base as a substring, and the fourth is the fixed text
  \<open>"Quick Review & Pitfalls"\<close>, into which the base is not substituted.
\<close>

theorem generate_content_subtopics_contain_base:
  "\<exists>r. generate_content t = Inr r \<and> length (subtopics r) = 4 \<and>
       sublist (base r) (subtopics r ! 0) \<and>
       sublist (base r) (subtopics r ! 1) \<and>
       sublist (base r) (subtopics r ! 2) \<and>
       subtopics r ! 3 = lit ''Quick Review & Pitfalls''"
  by (simp add: generator_defs) (simp add: subtopics_of_def)

text \<open>
  Claim C3 as stated fails at the topic \<open>"Math"\<close>: the base is \<open>"Math"\<close> and the
  fourth label does not contain it.
\<close>

theorem fourth_subtopic_counterexample:
  "generate_content (lit ''Math'') = Inr (projr (generate_content (lit ''Math''))) \<and>
   base (projr (generate_content (lit ''Math''))) = lit ''Math'' \<and>
   \<not> sublist (base (projr (generate_content (lit ''Math''))))
              (subtopics (projr (generate_content (lit ''Math''))) ! 3)"
proof -
  have s: "strip (lit ''Math'') = lit ''Math''"
    by (simp add: strip_def lstrip_def rstrip_def lit_def isspace_def)
  have n: "lit ''Math'' \<noteq> []" by (simp add: lit_def)
  have "\<not> sublist (lit ''Math'') (lit ''Quick Review & Pitfalls'')"
    by (simp add: lit_def sublist_Cons_right)
  with s n show ?thesis
    by (simp add: generator_defs) (simp add: base_of_def subtopics_of_def)
qed

text \<open>
  Claim C5. For every input the four labels come in the fixed order Foundations, Core
  Concepts, Applying, Quick Review, and they are pairwise distinct.
\<close>

theorem generate_content_subtopics_order:
  "\<exists>r. generate_content t = Inr r \<and>
       subtopics r =
         [lit ''Foundations of '' @ base r, lit ''Core Concepts in '' @ base r,
          lit ''Applying '' @ base r, lit ''Quick Review & Pitfalls''] \<and>
       distinct (subtopics r)"
  using subtopics_distinct[of "base_of t"]
  by (simp add: generator_defs) (simp add: subtopics_of_def)

text \<open>
  Claim C10. Stripping the topic before the call does not change the result of
  \<open>generate_content\<close>.
\<close>

theorem generate_content_pretrim: "generate_content (strip t) = generate_content t"
  by (simp add: generate_content_def base_of_def strip_idem)

text \<open>
  Claim C4, as the code has it. The option lists and the answer indices of the quiz
  items are the same for every two inputs. The base is substituted into the question of
  both items of the labels at indices 0, 1 and 3 and of the first item of the label at
  index 2; the question of the second item at index 2 is fixed text. The quiz
  dictionary lists the labels in their order.
\<close>

theorem generate_content_quiz_templates:
  "\<exists>r r'. generate_content t = Inr r \<and> generate_content t' = Inr r' \<and>
     dict_keys (quizzes r) = subtopics r \<and>
     map (\<lambda>e. map (\<lambda>i. (options i, answer i)) (snd e)) (quizzes r) =
       map (\<lambda>e. map (\<lambda>i. (options i, answer i)) (snd e)) (quizzes r') \<and>
     map (\<lambda>e. map q (snd e)) (quizzes r) =
       [[lit ''Which best describes the aim of '' @ base r @ lit ''?'',
         lit ''A good first step when learning '' @ base r @ lit '' is to:''],
        [lit ''Core concepts in '' @ base r @ lit '' should be:'',
         lit ''Trade-offs in '' @ base r @ lit '' help you:''],
        [lit ''When applying '' @ base r @ lit '', start by:'',
         lit ''Edge cases are important because they:''],
        [lit ''A concise review of '' @ base r @ lit '' should:'',
         lit ''Flashcards for '' @ base r @ lit '' work best when they:'']]"
  by (simp add: generator_defs dict_keys_def) (simp add: subtopics_of_def)

text \<open>
  Claim C4 as stated fails at index 3: for the topic \<open>"Math"\<close> both questions under the
  fourth label carry the base, and they differ from those for the topic \<open>"Art"\<close>.
\<close>

theorem quiz_question_index3_counterexample:
  "map q (the (dict_get (quizzes (projr (generate_content (lit ''Math''))))
                        (subtopics (projr (generate_content (lit ''Math''))) ! 3))) =
     [lit ''A concise review of '' @ lit ''Math'' @ lit '' should:'',
      lit ''Flashcards for '' @ lit ''Math'' @ lit '' work best when they:''] \<and>
   map q (the (dict_get (quizzes (projr (generate_content (lit ''Math''))))
                        (subtopics (projr (generate_content (lit ''Math''))) ! 3))) \<noteq>
   map q (the (dict_get (quizzes (projr (generate_content (lit ''Art''))))
                        (subtopics (projr (generate_content (lit ''Art''))) ! 3)))"
proof -
  have m: "base_of (lit ''Math'') = lit ''Math''"
    by (simp add: base_of_def strip_def lstrip_def rstrip_def lit_def isspace_def)
  have a: "base_of (lit ''Art'') = lit ''Art''"
    by (simp add: base_of_def strip_def lstrip_def rstrip_def lit_def isspace_def)
  have d: "lit ''A concise review of '' @ lit ''Math'' @ lit '' should:'' \<noteq>
           lit ''A concise review of '' @ lit ''Art'' @ lit '' should:''"
    by (simp add: lit_def)
  have k: "\<And>b v0 v1 v2 v3.
      dict_get (zip (subtopics_of b) [v0, v1, v2, v3]) (subtopics_of b ! 3) = Some v3"
    using subtopics_distinct unfolding subtopics_of_def dict_get_def by (simp add: lit_def)
  show ?thesis using d
    by (simp add: generator_defs k m a)
qed

text \<open>
  Claim C6. For every input the keys of the explanations, of the examples and of the
  quizzes are exactly the four labels of the same result, every entry of the examples
  has three prompts and every entry of the quizzes has two items.
\<close>

theorem generate_content_key_sets:
  "\<exists>r. generate_content t = Inr r \<and>
       set (dict_keys (explanations r)) = set (subtopics r) \<and>
       set (dict_keys (examples r)) = set (subtopics r) \<and>
       set (dict_keys (quizzes r)) = set (subtopics r) \<and>
       card (set (subtopics r)) = 4 \<and>
       (\<forall>e \<in> set (examples r). length (snd e) = 3) \<and>
       (\<forall>e \<in> set (quizzes r). length (snd e) = 2)"
  using subtopics_distinct[of "base_of t"] length_subtopics_of[of "base_of t"]
  by (simp add: generator_defs dict_keys_def distinct_card) (simp add: subtopics_of_def)

text \<open>
  The theorem at the topic \<open>"Math"\<close>, on the first entry of each dictionary.
\<close>

theorem generate_content_key_sets_witness:
  "hd (examples (projr (generate_content (lit ''Math''))))
     \<in> set (examples (projr (generate_content (lit ''Math'')))) \<and>
   length (snd (hd (examples (projr (generate_content (lit ''Math'')))))) = 3 \<and>
   hd (quizzes (projr (generate_content (lit ''Math''))))
     \<in> set (quizzes (projr (generate_content (lit ''Math'')))) \<and>
   length (snd (hd (quizzes (projr (generate_content (lit ''Math'')))))) = 2"
proof -
  have "examples (projr (generate_content (lit ''Math''))) \<noteq> []"
    and "quizzes (projr (generate_content (lit ''Math''))) \<noteq> []"
    by (simp_all add: generator_defs) (simp_all add: subtopics_of_def)
  then have "hd (examples (projr (generate_content (lit ''Math''))))
               \<in> set (examples (projr (generate_content (lit ''Math''))))"
    and "hd (quizzes (projr (generate_content (lit ''Math''))))
               \<in> set (quizzes (projr (generate_content (lit ''Math''))))"
    by simp_all
  with generate_content_key_sets[of "lit ''Math''"] show ?thesis by auto
qed

text \<open>
  Claim C7. For every input, every quiz item has four options and an answer index
  from 0 up to, but not including, 4.
\<close>

theorem generate_content_quiz_shape:
  "\<exists>r. generate_content t = Inr r \<and>
       (\<forall>e \<in> set (quizzes r). \<forall>item \<in> set (snd e).
          length (options item) = 4 \<and> 0 \<le> answer item \<and> answer item < 4)"
  by (simp add: generator_defs) (simp add: subtopics_of_def)

text \<open>
  The theorem at the topic \<open>"Math"\<close>, on the first item under the first label.
\<close>

theorem generate_content_quiz_shape_witness:
  "hd (quizzes (projr (generate_content (lit ''Math''))))
     \<in> set (quizzes (projr (generate_content (lit ''Math'')))) \<and>
   hd (snd (hd (quizzes (projr (generate_content (lit ''Math''))))))
     \<in> set (snd (hd (quizzes (projr (generate_content (lit ''Math'')))))) \<and>
   length (options (hd (snd (hd (quizzes (projr (generate_content (lit ''Math''))))))))  = 4 \<and>
   0 \<le> answer (hd (snd (hd (quizzes (projr (generate_content (lit ''Math''))))))) \<and>
   answer (hd (snd (hd (quizzes (projr (generate_content (lit ''Math''))))))) < 4"
proof -
  have "quizzes (projr (generate_content (lit ''Math''))) \<noteq> []"
    and "snd (hd (quizzes (projr (generate_content (lit ''Math''))))) \<noteq> []"
    by (simp_all add: generator_defs) (simp_all add: subtopics_of_def)
  then have "hd (quizzes (projr (generate_content (lit ''Math''))))
               \<in> set (quizzes (projr (generate_content (lit ''Math''))))"
    and "hd (snd (hd (quizzes (projr (generate_content (lit ''Math''))))))
               \<in> set (snd (hd (quizzes (projr (generate_content (lit ''Math''))))))"
    by simp_all
  with generate_content_quiz_shape[of "lit ''Math''"] show ?thesis by auto
qed

section \<open>The handlers' responses\<close>

text \<open>
  The text of the source's literals and the marks can be encoded; so the body of a
  generation result can be encoded exactly when its base can.
\<close>

lemma utf8_encodable_append: "utf8_encodable (a @ b) \<longleftrightarrow> utf8_encodable a \<and> utf8_encodable b"
  by (simp add: utf8_encodable_def)

lemma utf8_encodable_lit: "utf8_encodable (lit s)"
proof -
  have "(of_char c :: nat) < 0xD800" for c
  proof -
    have "(of_char c :: nat) < 256" by (rule nat_of_char_less_256)
    also have "(256 :: nat) < 0xD800" by simp
    finally show ?thesis .
  qed
  then show ?thesis by (simp add: utf8_encodable_def lit_def list_all_iff)
qed

lemma utf8_encodable_marks:
  "utf8_encodable check_mark" "utf8_encodable cross_mark" "utf8_encodable warning_sign"
  by (simp_all add: utf8_encodable_def check_mark_def cross_mark_def warning_sign_def)

lemma set_flag_encodable: "utf8_encodable (set_flag v)"
  by (simp add: set_flag_def utf8_encodable_append utf8_encodable_lit utf8_encodable_marks)

lemma generate_content_encodable:
  assumes "generate_content t = Inr r"
  shows "list_all utf8_encodable (GenerateResponse_strings r) \<longleftrightarrow> utf8_encodable (base r)"
proof -
  from assms have "r = projr (generate_content t)" by simp
  then show ?thesis
    by (simp add: generator_defs GenerateResponse_strings_def)
       (auto simp add: subtopics_of_def utf8_encodable_append utf8_encodable_lit)
qed

text \<open>
  Claim C2, as the code has it. When the topic of the request is empty after stripping,
  the handler raises \<open>HTTPException\<close> with status 400 and detail
  \<open>"Topic is required"\<close> and has made no call of the generator. Otherwise it has called
  the generator once, on the stripped topic, and returns its result; the response has
  status 200 and that result as its body when the stripped topic holds no lone
  surrogate, and status 500 when it holds one.
\<close>

theorem generate_endpoint_validates:
  "(strip (topic payload) = [] \<longrightarrow>
      generate_endpoint payload = ([], Inl (HTTPException 400 (lit ''Topic is required''))) \<and>
      http_response GenerateResponse_strings (snd (generate_endpoint payload)) =
        (400, Detail (lit ''Topic is required''))) \<and>
   (strip (topic payload) \<noteq> [] \<longrightarrow>
      (\<exists>r. generate_content (strip (topic payload)) = Inr r \<and>
           generate_endpoint payload = ([strip (topic payload)], Inr r) \<and>
           http_response GenerateResponse_strings (snd (generate_endpoint payload)) =
             (if utf8_encodable (strip (topic payload)) then (200, Json r)
              else (500, InternalServerError))))"
proof -
  have e: "strip (lit []) = []" by (simp add: strip_def lstrip_def rstrip_def lit_def)
  have t: "strip (if topic payload \<noteq> [] then topic payload else lit []) = strip (topic payload)"
    using e by (simp add: lit_def)
  obtain r where r: "generate_content (strip (topic payload)) = Inr r"
    using generate_content_returns by blast
  have b: "strip (topic payload) \<noteq> [] \<Longrightarrow> base r = strip (topic payload)"
    using r by (auto simp add: generator_defs base_of_def strip_idem)
  have enc: "list_all utf8_encodable (GenerateResponse_strings r) \<longleftrightarrow> utf8_encodable (base r)"
    using r by (rule generate_content_encodable)
  show ?thesis
    unfolding generate_endpoint_def t Let_def using r b enc
    by (simp add: http_response_def utf8_encodable_lit)
qed

text \<open>
  The theorem at a topic of one space and at the topic \<open>" Sets"\<close>.
\<close>

theorem generate_endpoint_validates_witness:
  "strip (topic \<lparr>topic = lit '' ''\<rparr>) = [] \<and>
   generate_endpoint \<lparr>topic = lit '' ''\<rparr> = ([], Inl (HTTPException 400 (lit ''Topic is required''))) \<and>
   strip (topic \<lparr>topic = lit '' Sets''\<rparr>) \<noteq> [] \<and>
   fst (generate_endpoint \<lparr>topic = lit '' Sets''\<rparr>) = [lit ''Sets''] \<and>
   fst (http_response GenerateResponse_strings (snd (generate_endpoint \<lparr>topic = lit '' Sets''\<rparr>))) = 200"
proof -
  have a: "strip (lit '' '') = []"
    by (simp add: strip_def lstrip_def rstrip_def lit_def isspace_def)
  have b: "strip (lit '' Sets'') = lit ''Sets''"
    by (simp add: strip_def lstrip_def rstrip_def lit_def isspace_def)
  have c: "lit ''Sets'' \<noteq> []" by (simp add: lit_def)
  have d: "utf8_encodable (lit ''Sets'')" by (rule utf8_encodable_lit)
  from generate_endpoint_validates[of "\<lparr>topic = lit '' ''\<rparr>"]
       generate_endpoint_validates[of "\<lparr>topic = lit '' Sets''\<rparr>"] a b c d
  show ?thesis by auto
qed

text \<open>
  Claim C2 as stated fails at the topic that consists of the lone surrogate U+D800:
  the stripped topic is not empty, and the response has status 500.
\<close>

theorem lone_surrogate_topic_counterexample:
  "strip (topic \<lparr>topic = [0xD800]\<rparr>) \<noteq> [] \<and>
   fst (http_response GenerateResponse_strings (snd (generate_endpoint \<lparr>topic = [0xD800]\<rparr>))) = 500"
proof -
  have s: "strip [0xD800] = [0xD800]"
    by (simp add: strip_def lstrip_def rstrip_def isspace_def)
  obtain r where r: "generate_content [0xD800] = Inr r"
    using generate_content_returns by blast
  have b: "base r = [0xD800]"
    using r s by (auto simp add: generator_defs base_of_def)
  have "\<not> list_all utf8_encodable (GenerateResponse_strings r)"
    using generate_content_encodable[OF r] b by (simp add: utf8_encodable_def)
  then show ?thesis using s r
    by (simp add: generate_endpoint_def Let_def http_response_def)
qed

text \<open>
  Claim C9, as the code has it. Suppose every exception raised by the import or by an
  operation on the handle derives from \<open>Exception\<close>. Then the probe returns; the
  reported collections are the first 10 names, or none; the status string is fixed
  text, followed where an error message is embedded by its first 50 characters; and the
  response has status 200 exactly when the status string and the reported names hold
  no lone surrogate, and status 500 otherwise.
\<close>

theorem test_database_status:
  assumes "\<forall>e. import_db env = Raises e \<longrightarrow> is_Exception e"
    and "\<forall>db. import_db env = Returns (Some db) \<longrightarrow>
           (\<forall>e. db_name db = Raises e \<longrightarrow> is_Exception e) \<and>
           (\<forall>e. list_collection_names db = Raises e \<longrightarrow> is_Exception e)"
  shows "\<exists>r. test_database env = Inr r \<and>
       length (collections r) \<le> 10 \<and>
       collections r =
         (case import_db env of
            Returns (Some db) \<Rightarrow>
              (case db_name db of
                 Returns n \<Rightarrow>
                   (case list_collection_names db of Returns cs \<Rightarrow> take 10 cs | _ \<Rightarrow> [])
               | _ \<Rightarrow> [])
          | _ \<Rightarrow> []) \<and>
       database r =
         (case import_db env of
            Raises e \<Rightarrow>
              (case e of
                 ImportError m \<Rightarrow>
                   cross_mark @ lit '' Database module not found (run enable-database first)''
               | _ \<Rightarrow> cross_mark @ lit '' Error: '' @ take 50 (message e))
          | Returns None \<Rightarrow> warning_sign @ lit ''  Available but not initialized''
          | Returns (Some db) \<Rightarrow>
              (case db_name db of
                 Raises e \<Rightarrow>
                   (case e of
                      ImportError m \<Rightarrow>
                        cross_mark @ lit '' Database module not found (run enable-database first)''
                    | _ \<Rightarrow> cross_mark @ lit '' Error: '' @ take 50 (message e))
               | Returns n \<Rightarrow>
                   (case list_collection_names db of
                      Raises e \<Rightarrow>
                        warning_sign @ lit ''  Connected but Error: '' @ take 50 (message e)
                    | Returns cs \<Rightarrow> check_mark @ lit '' Connected & Working''))) \<and>
       http_response test_response_strings (test_database env) =
         (if utf8_encodable (database r) \<and> list_all utf8_encodable (collections r)
          then (200, Json r) else (500, InternalServerError))"
proof -
  have "test_database env = Inr (projr (test_database env))"
    using assms
    by (auto simp add: test_database_def probe_def Let_def
        split: outcome.splits option.splits db_exception.splits)
  then obtain r where r: "test_database env = Inr r" ..
  have c: "length (collections r) \<le> 10"
    using r
    by (auto simp add: test_database_def probe_def Let_def
        split: outcome.splits option.splits db_exception.splits prod.splits if_splits)
  have k: "collections r =
         (case import_db env of
            Returns (Some db) \<Rightarrow>
              (case db_name db of
                 Returns n \<Rightarrow>
                   (case list_collection_names db of Returns cs \<Rightarrow> take 10 cs | _ \<Rightarrow> [])
               | _ \<Rightarrow> [])
          | _ \<Rightarrow> [])"
    using r assms
    by (auto simp add: test_database_def probe_def Let_def
        split: outcome.splits option.splits db_exception.splits prod.splits if_splits)
  have f: "utf8_encodable (backend r) \<and> utf8_encodable (connection_status r) \<and>
           database_url r = Some (set_flag (DATABASE_URL env)) \<and>
           database_name r = Some (set_flag (DATABASE_NAME env))"
    using r
    by (auto simp add: test_database_def probe_def Let_def utf8_encodable_lit
          utf8_encodable_append utf8_encodable_marks
        split: outcome.splits option.splits db_exception.splits prod.splits if_splits)
  have d: "database r =
         (case import_db env of
            Raises e \<Rightarrow>
              (case e of
                 ImportError m \<Rightarrow>
                   cross_mark @ lit '' Database module not found (run enable-database first)''
               | _ \<Rightarrow> cross_mark @ lit '' Error: '' @ take 50 (message e))
          | Returns None \<Rightarrow> warning_sign @ lit ''  Available but not initialized''
          | Returns (Some db) \<Rightarrow>
              (case db_name db of
                 Raises e \<Rightarrow>
                   (case e of
                      ImportError m \<Rightarrow>
                        cross_mark @ lit '' Database module not found (run enable-database first)''
                    | _ \<Rightarrow> cross_mark @ lit '' Error: '' @ take 50 (message e))
               | Returns n \<Rightarrow>
                   (case list_collection_names db of
                      Raises e \<Rightarrow>
                        warning_sign @ lit ''  Connected but Error: '' @ take 50 (message e)
                    | Returns cs \<Rightarrow> check_mark @ lit '' Connected & Working'')))"
    using r assms
    by (auto simp add: test_database_def probe_def Let_def
        split: outcome.splits option.splits db_exception.splits prod.splits if_splits)
  have h: "http_response test_response_strings (test_database env) =
         (if utf8_encodable (database r) \<and> list_all utf8_encodable (collections r)
          then (200, Json r) else (500, InternalServerError))"
    using f by (auto simp add: r http_response_def test_response_strings_def set_flag_encodable)
  from r c k d h show ?thesis by blast
qed

text \<open>
  The theorem where the module is missing, and where \<open>list_collection_names()\<close>
  raises with a message of 60 characters.
\<close>

theorem test_database_status_witness:
  "is_Exception (ImportError (lit ''No module named database'')) \<and>
   http_response test_response_strings
     (test_database \<lparr>import_db = Raises (ImportError (lit ''No module named database'')),
                     DATABASE_URL = None, DATABASE_NAME = None\<rparr>) =
     (200, Json (projr (test_database
        \<lparr>import_db = Raises (ImportError (lit ''No module named database'')),
         DATABASE_URL = None, DATABASE_NAME = None\<rparr>))) \<and>
   is_Exception (OtherException (replicate 60 0x61)) \<and>
   database (projr (test_database
     \<lparr>import_db = Returns (Some \<lparr>db_name = Returns None,
                                   list_collection_names = Raises (OtherException (replicate 60 0x61))\<rparr>),
      DATABASE_URL = None, DATABASE_NAME = None\<rparr>)) =
     warning_sign @ lit ''  Connected but Error: '' @ replicate 50 0x61 \<and>
   fst (http_response test_response_strings (test_database
     \<lparr>import_db = Returns (Some \<lparr>db_name = Returns None,
                                   list_collection_names = Raises (OtherException (replicate 60 0x61))\<rparr>),
      DATABASE_URL = None, DATABASE_NAME = None\<rparr>)) = 200"
proof -
  have e: "utf8_encodable (replicate 50 0x61)"
    by (simp add: utf8_encodable_def list_all_iff)
  from test_database_status
         [of "\<lparr>import_db = Raises (ImportError (lit ''No module named database'')),
              DATABASE_URL = None, DATABASE_NAME = None\<rparr>"]
       test_database_status
         [of "\<lparr>import_db = Returns (Some \<lparr>db_name = Returns None,
                list_collection_names = Raises (OtherException (replicate 60 0x61))\<rparr>),
              DATABASE_URL = None, DATABASE_NAME = None\<rparr>"]
       e
  show ?thesis
    by (auto simp add: utf8_encodable_append utf8_encodable_lit utf8_encodable_marks)
qed

text \<open>
  Claim C9 as stated fails where \<open>list_collection_names()\<close> raises with a message that
  holds a lone surrogate, and where it raises an exception that derives from
  \<open>BaseException\<close> only: the response has status 500.
\<close>

theorem test_database_not_200_counterexample:
  "fst (http_response test_response_strings (test_database
     \<lparr>import_db = Returns (Some \<lparr>db_name = Returns None,
                                   list_collection_names = Raises (OtherException [0xD800])\<rparr>),
      DATABASE_URL = None, DATABASE_NAME = None\<rparr>)) = 500 \<and>
   fst (http_response test_response_strings (test_database
     \<lparr>import_db = Returns (Some \<lparr>db_name = Returns None,
                                   list_collection_names = Raises (BaseOnly [])\<rparr>),
      DATABASE_URL = None, DATABASE_NAME = None\<rparr>)) = 500"
  by (simp add: test_database_def probe_def Let_def http_response_def test_response_strings_def
        utf8_encodable_def)

end
